theory Spec2Isabelle
  imports Complex_Main "HOL-Library.Sublist"
begin

section \<open>Values exchanged with the outside world\<close>

text \<open>
  The backend (\<^verbatim>\<open>backend/index.js\<close>) receives JSON from two sides: the body of
  \<^verbatim>\<open>POST /chat\<close>, parsed by \<^verbatim>\<open>express.json()\<close>, and the arguments the
  model supplies to a tool. The values are JavaScript's: those of JSON, and
  \<^verbatim>\<open>undefined\<close>, which reading an absent field gives. A number is modelled by its
  numeric value.
\<close>

datatype jsval =
    JUndefined
  | JNull
  | JBool bool
  | JNum real
  | JStr string
  | JArr "jsval list"
  | JObj "(string \<times> jsval) list"

text \<open>
  A JavaScript object: a map from field names to values. \<open>field obj k\<close> is the
  expression \<^verbatim>\<open>obj.k\<close>.
\<close>

type_synonym object = "string \<rightharpoonup> jsval"

definition field :: "object \<Rightarrow> string \<Rightarrow> jsval" where
  "field obj k = (case obj k of None \<Rightarrow> JUndefined | Some v \<Rightarrow> v)"

text \<open>
  JavaScript truthiness, as \<^verbatim>\<open>!message\<close> tests it: \<^verbatim>\<open>undefined\<close>,
  \<^verbatim>\<open>null\<close>, \<^verbatim>\<open>false\<close>, \<^verbatim>\<open>0\<close> and the empty string are falsy;
  every array and every object is truthy.
\<close>

fun truthy :: "jsval \<Rightarrow> bool" where
  "truthy JUndefined = False"
| "truthy JNull = False"
| "truthy (JBool b) = b"
| "truthy (JNum n) = (n \<noteq> 0)"
| "truthy (JStr s) = (s \<noteq> [])"
| "truthy (JArr xs) = True"
| "truthy (JObj kvs) = True"

section \<open>The chat endpoint\<close>

text \<open>
  \<^verbatim>\<open>const chatHistory = [];\<close> is one array for the whole process. Its elements are
  the objects \<^verbatim>\<open>{ role, content }\<close> pushed by the handler.
\<close>

record turn =
  role :: string
  content :: jsval

text \<open>
  The argument of \<^verbatim>\<open>agentExecutor.invoke\<close>: \<^verbatim>\<open>{ input, chat_history }\<close>.
\<close>

record agent_input =
  input :: jsval
  chat_history :: "turn list"

text \<open>
  The agent executor is a hosted model behind a library: it is a parameter of the
  handler. The awaited promise either resolves with \<^verbatim>\<open>result.output\<close>
  (\<open>Inr\<close>) or rejects (\<open>Inl\<close>, the error's message).
\<close>

type_synonym agent = "agent_input \<Rightarrow> string + string"

text \<open>
  The state the handler works on: the shared history, and the log of the calls made to
  the agent executor (every \<^verbatim>\<open>agentExecutor.invoke\<close> is recorded with its argument,
  so that "the orchestrator was not invoked" can be said).
\<close>

record server_state =
  chatHistory :: "turn list"
  invocations :: "agent_input list"

datatype payload = Response string | Error string

record http_response =
  status :: nat
  body :: payload

text \<open>
  What a call of the handler ends in: it has answered, or it has thrown. The handler is
  an \<^verbatim>\<open>async\<close> function, so a throw outside its \<^verbatim>\<open>try\<close> block rejects its
  promise without an answer having been sent; what the client then receives is the
  framework's doing, not the handler's.
\<close>

datatype outcome = Answered http_response | Uncaught

text \<open>
  \<^verbatim>\<open>app.post("/chat", async (req, res) => { ... })\<close>, one request handled from its
  start to its end. \<^verbatim>\<open>req.body\<close> is what the body parser left: an object, or
  \<^verbatim>\<open>undefined\<close> (\<open>None\<close>) when it parsed no body. The first statement,
  \<^verbatim>\<open>const { message } = req.body\<close>, stands before the \<^verbatim>\<open>try\<close> block:
  destructuring \<^verbatim>\<open>undefined\<close> throws a TypeError that nothing catches. On an
  object it reads the field \<^verbatim>\<open>message\<close>. The history is passed to the executor
  as it stands; the two \<^verbatim>\<open>push\<close> calls come after the \<^verbatim>\<open>await\<close> and are
  skipped when it rejects. \<^verbatim>\<open>res.json\<close> without \<^verbatim>\<open>res.status\<close> answers 200;
  sending the answer and \<^verbatim>\<open>console.error\<close> are taken not to throw.
\<close>

definition chat_post ::
  "agent \<Rightarrow> object option \<Rightarrow> server_state \<Rightarrow> outcome \<times> server_state" where
  "chat_post agentExecutor req_body st =
     (case req_body of
        None \<Rightarrow> (Uncaught, st)
      | Some obj \<Rightarrow>
          (let message = field obj ''message'' in
           if \<not> truthy message then
             (Answered \<lparr>status = 400, body = Error ''Message is required''\<rparr>, st)
           else
             (let arg = \<lparr>input = message, chat_history = chatHistory st\<rparr>;
                  st1 = st\<lparr>invocations := invocations st @ [arg]\<rparr>
              in case agentExecutor arg of
                   Inr output \<Rightarrow>
                     (Answered \<lparr>status = 200, body = Response output\<rparr>,
                      st1\<lparr>chatHistory := chatHistory st1 @
                             [\<lparr>role = ''human'', content = message\<rparr>,
                              \<lparr>role = ''ai'', content = JStr output\<rparr>]\<rparr>)
                 | Inl err \<Rightarrow>
                     (Answered \<lparr>status = 500,
                        body = Error ''Failed to get a response from the agent.''\<rparr>,
                      st1))))"

text \<open>The process starts with the empty history and no call made.\<close>

definition initial_state :: server_state where
  "initial_state = \<lparr>chatHistory = [], invocations = []\<rparr>"

text \<open>
  The states the server can be in: the initial one, and the one left by any request
  handled in a state it can be in, whatever the body and whatever the agent answers.
  Requests that are in flight together touch the history only in their two
  \<^verbatim>\<open>push\<close> calls, which run one after the other with no \<^verbatim>\<open>await\<close> between
  them; for the history, such an interleaving is a sequence of these steps.
\<close>

inductive reachable :: "server_state \<Rightarrow> bool" where
  reachable_init: "reachable initial_state"
| reachable_post: "reachable st \<Longrightarrow> reachable (snd (chat_post agentExecutor req_body st))"

text \<open>
  A history of even length whose turns are human, ai, human, ai, ... from the first.
\<close>

definition alternating :: "turn list \<Rightarrow> bool" where
  "alternating history =
     (even (length history) \<and>
      (\<forall>i < length history. role (history ! i) = (if even i then ''human'' else ''ai'')))"

text \<open>Two agents for running the handler: one that answers, one that fails.\<close>

definition agent_replying :: "string \<Rightarrow> agent" where
  "agent_replying reply arg = Inr reply"

definition agent_failing :: "string \<Rightarrow> agent" where
  "agent_failing reason arg = Inl reason"

section \<open>The claims store\<close>

text \<open>
  The rows written to and read from the table \<^verbatim>\<open>claims\<close> are objects.
  What an awaited call of the Supabase client gives: the promise rejects (\<open>Inl\<close>,
  the message), or it resolves with an object whose field \<^verbatim>\<open>error\<close> is
  \<^verbatim>\<open>null\<close> (\<open>None\<close>) or carries a message. A query also resolves with
  \<^verbatim>\<open>data\<close>, the rows or \<^verbatim>\<open>null\<close>.
\<close>

type_synonym insert_reply = "string + string option"

record select_reply =
  data :: "object list option"
  error :: "string option"

text \<open>
  The hosted table is outside the program. Whether a request succeeds is decided there
  (\<open>outcome\<close>); the table is a list of rows, a successful insert adds its row at the
  end and any other outcome adds nothing. A query filters on the column
  \<^verbatim>\<open>email\<close>, as \<^verbatim>\<open>.eq('email', email)\<close> asks.
\<close>

definition claims_insert ::
  "insert_reply \<Rightarrow> object \<Rightarrow> object list \<Rightarrow> insert_reply \<times> object list" where
  "claims_insert outcome row table =
     (outcome, case outcome of Inr None \<Rightarrow> table @ [row] | _ \<Rightarrow> table)"

definition claims_select :: "object list \<Rightarrow> string \<Rightarrow> string + select_reply" where
  "claims_select table email =
     Inr \<lparr>data = Some (filter (\<lambda>row. field row ''email'' = JStr email) table),
          error = None\<rparr>"

section \<open>The tools\<close>

text \<open>
  \<^verbatim>\<open>expenseClaimTool.func\<close>. The \<^verbatim>\<open>try\<close> block awaits one insert of
  \<^verbatim>\<open>{ email, description, amount, status: 'Submitted' }\<close>; a rejected promise
  and a reply with an error both end in the \<^verbatim>\<open>catch\<close> branch. \<open>insert_row\<close>
  is the client's operation on the store \<open>db\<close>.
\<close>

definition claim_row :: "string \<Rightarrow> string \<Rightarrow> real \<Rightarrow> object" where
  "claim_row email description amount =
     [''email'' \<mapsto> JStr email, ''description'' \<mapsto> JStr description,
      ''amount'' \<mapsto> JNum amount, ''status'' \<mapsto> JStr ''Submitted'']"

definition submit_success :: "string \<Rightarrow> string" where
  "submit_success email =
     ''Successfully submitted expense claim for '' @ email @
     ''. The details have been recorded in the database.''"

definition submit_failure :: string where
  "submit_failure = ''Failed to submit expense claim due to an internal error.''"

definition expenseClaimTool_func ::
  "(object \<Rightarrow> 'db \<Rightarrow> insert_reply \<times> 'db) \<Rightarrow> string \<times> string \<times> real \<Rightarrow> 'db \<Rightarrow> string \<times> 'db" where
  "expenseClaimTool_func insert_row args db =
     (case args of (email, description, amount) \<Rightarrow>
        (case insert_row (claim_row email description amount) db of
           (Inl thrown, db') \<Rightarrow> (submit_failure, db')
         | (Inr (Some message), db') \<Rightarrow> (submit_failure, db')
         | (Inr None, db') \<Rightarrow> (submit_success email, db')))"

text \<open>
  \<^verbatim>\<open>getUserClaimsTool.func\<close>. \<open>select\<close> is the awaited query for an email.
  Template strings coerce a field to text (\<open>str\<close>, JavaScript's conversion, which
  also prints \<^verbatim>\<open>undefined\<close>) and the date goes through
  \<^verbatim>\<open>new Date(...).toLocaleDateString()\<close> (\<open>locale_date\<close>); both are the
  runtime's and are parameters.
\<close>

fun join :: "string \<Rightarrow> string list \<Rightarrow> string" where
  "join sep [] = []"
| "join sep [x] = x"
| "join sep (x # y # ys) = x @ sep @ join sep (y # ys)"

definition format_claim ::
  "(jsval \<Rightarrow> string) \<Rightarrow> (jsval \<Rightarrow> string) \<Rightarrow> object \<Rightarrow> string" where
  "format_claim str locale_date claim =
     ''- Claim ID '' @ str (field claim ''id'') @ '': '' @
     str (field claim ''description'') @ '' for $'' @ str (field claim ''amount'') @
     '' (Status: '' @ str (field claim ''status'') @ '', Submitted on: '' @
     locale_date (field claim ''created_at'') @ '')''"

definition no_claims_found :: "string \<Rightarrow> string" where
  "no_claims_found email = ''No past claims found for '' @ email @ ''.''"

definition retrieve_failure :: string where
  "retrieve_failure = ''Failed to retrieve claims due to an internal error.''"

definition getUserClaimsTool_func ::
  "(jsval \<Rightarrow> string) \<Rightarrow> (jsval \<Rightarrow> string) \<Rightarrow>
   (string \<Rightarrow> string + select_reply) \<Rightarrow> string \<Rightarrow> string" where
  "getUserClaimsTool_func str locale_date select email =
     (case select email of
        Inl thrown \<Rightarrow> retrieve_failure
      | Inr reply \<Rightarrow>
          (case error reply of
             Some message \<Rightarrow> retrieve_failure
           | None \<Rightarrow>
               (case data reply of
                  None \<Rightarrow> no_claims_found email
                | Some rows \<Rightarrow>
                    if length rows = 0 then no_claims_found email
                    else ''Here are the past claims for '' @ email @ '':'' @ [CHR 0x0A] @
                         join [CHR 0x0A] (map (format_claim str locale_date) rows))))"

text \<open>
  The schemas. \<^verbatim>\<open>z.string()\<close> accepts a string, \<^verbatim>\<open>z.number()\<close> a number of
  either sign, \<^verbatim>\<open>.email()\<close> adds zod's format check, the parameter
  \<open>is_email\<close>. A field that is absent or of another type fails the schema
  (\<open>None\<close>); the parsed arguments are what \<^verbatim>\<open>func\<close> receives.
\<close>

definition expenseClaimTool_schema ::
  "(string \<Rightarrow> bool) \<Rightarrow> object \<Rightarrow> (string \<times> string \<times> real) option" where
  "expenseClaimTool_schema is_email raw =
     (case (field raw ''email'', field raw ''description'', field raw ''amount'') of
        (JStr email, JStr description, JNum amount) \<Rightarrow>
          if is_email email then Some (email, description, amount) else None
      | _ \<Rightarrow> None)"

definition getUserClaimsTool_schema :: "(string \<Rightarrow> bool) \<Rightarrow> object \<Rightarrow> string option" where
  "getUserClaimsTool_schema is_email raw =
     (case field raw ''email'' of
        JStr email \<Rightarrow> if is_email email then Some email else None
      | _ \<Rightarrow> None)"

text \<open>
  One instance of the format check, for running the tools on concrete arguments: a
  non-empty local part, one \<^verbatim>\<open>@\<close>, a domain with a dot, no space. zod's own
  pattern is stricter; the theorems below hold for every \<open>is_email\<close>.
\<close>

definition email_shape :: "string \<Rightarrow> bool" where
  "email_shape s =
     (let local = takeWhile (\<lambda>c. c \<noteq> CHR ''@'') s;
          rest = dropWhile (\<lambda>c. c \<noteq> CHR ''@'') s
      in local \<noteq> [] \<and> rest \<noteq> [] \<and> CHR ''.'' \<in> set (tl rest) \<and>
         CHR ''@'' \<notin> set (tl rest) \<and> CHR '' '' \<notin> set s)"

datatype tool_error = ValidationError

text \<open>
  Modelled from the spec: the dispatch of a tool call, which is the tool library's
  (\<^verbatim>\<open>DynamicStructuredTool\<close>) and not in the repository. "If argument validation
  fails, the tool must not execute side effects and must return a structured
  validation error to the orchestrator"; otherwise the handler runs on the validated
  arguments and its text is the result.
\<close>

definition tool_call ::
  "('raw \<Rightarrow> 'args option) \<Rightarrow> ('args \<Rightarrow> 'db \<Rightarrow> string \<times> 'db) \<Rightarrow> 'raw \<Rightarrow> 'db \<Rightarrow>
   (tool_error + string) \<times> 'db" where
  "tool_call schema func raw db =
     (case schema raw of
        None \<Rightarrow> (Inl ValidationError, db)
      | Some args \<Rightarrow> (case func args db of (text, db') \<Rightarrow> (Inr text, db')))"

definition submit_expense_claim ::
  "(string \<Rightarrow> bool) \<Rightarrow> (object \<Rightarrow> 'db \<Rightarrow> insert_reply \<times> 'db) \<Rightarrow> object \<Rightarrow> 'db \<Rightarrow>
   (tool_error + string) \<times> 'db" where
  "submit_expense_claim is_email insert_row =
     tool_call (expenseClaimTool_schema is_email) (expenseClaimTool_func insert_row)"

definition get_user_claims ::
  "(string \<Rightarrow> bool) \<Rightarrow> (jsval \<Rightarrow> string) \<Rightarrow> (jsval \<Rightarrow> string) \<Rightarrow>
   ('db \<Rightarrow> string \<Rightarrow> string + select_reply) \<Rightarrow> object \<Rightarrow> 'db \<Rightarrow> (tool_error + string) \<times> 'db" where
  "get_user_claims is_email str locale_date select =
     tool_call (getUserClaimsTool_schema is_email)
       (\<lambda>email db. (getUserClaimsTool_func str locale_date (select db) email, db))"

section \<open>Startup\<close>

text \<open>
  \<^verbatim>\<open>process.env\<close> maps names to strings. \<^verbatim>\<open>if (!x) throw ...\<close> fires on a
  variable that is unset and on one that is empty. A throw at the top level of the
  module ends the process.
\<close>

type_synonym env = "string \<rightharpoonup> string"

definition unset :: "string option \<Rightarrow> bool" where
  "unset v = (case v of None \<Rightarrow> True | Some s \<Rightarrow> s = [])"

datatype config_error = Expected string | ApiKeyRequired

text \<open>
  Modelled from the spec: the constructors of the Gemini chat model and of the Gemini
  embeddings, which are the client library's and not in the repository. The spec names
  the embedding/LLM API key among the required configuration and makes a missing
  required secret a ConfigurationError, fatal at startup: a constructor given no key
  throws.
\<close>

definition gemini_client :: "string option \<Rightarrow> config_error option" where
  "gemini_client apiKey = (if unset apiKey then Some ApiKeyRequired else None)"

text \<open>
  The top level of \<^verbatim>\<open>backend/index.js\<close>, in the order of the file: the two
  checks, the chat model, the embeddings, and at the end \<^verbatim>\<open>app.listen(port)\<close>
  with \<^verbatim>\<open>port = 8000\<close>. \<open>Inr port\<close>: the server is listening. The file has
  no check of \<^verbatim>\<open>GOOGLE_API_KEY\<close>: the variable goes to the two constructors as
  it is. The calls in between (the Supabase client, the vector store, the tools, the
  agent) are taken to succeed.
\<close>

definition index_startup :: "env \<Rightarrow> config_error + nat" where
  "index_startup process_env =
     (let privateKey = process_env ''SUPABASE_KEY'' in
      if unset privateKey then Inl (Expected ''SUPABASE_KEY'')
      else
        let url = process_env ''SUPABASE_URL'' in
        if unset url then Inl (Expected ''SUPABASE_URL'')
        else
          (case gemini_client (process_env ''GOOGLE_API_KEY'') of
             Some e \<Rightarrow> Inl e
           | None \<Rightarrow>
               (case gemini_client (process_env ''GOOGLE_API_KEY'') of
                  Some e \<Rightarrow> Inl e
                | None \<Rightarrow> Inr 8000)))"

text \<open>
  The top level of \<^verbatim>\<open>backend/ingest.js\<close>: three checks, then \<^verbatim>\<open>run()\<close>
  (\<open>Inr ()\<close>: the ingestion is started).
\<close>

definition ingest_startup :: "env \<Rightarrow> config_error + unit" where
  "ingest_startup process_env =
     (let privateKey = process_env ''SUPABASE_KEY'' in
      if unset privateKey then Inl (Expected ''SUPABASE_KEY'')
      else
        let url = process_env ''SUPABASE_URL'' in
        if unset url then Inl (Expected ''SUPABASE_URL'')
        else
          let GOOGLE_API_KEY = process_env ''GOOGLE_API_KEY'' in
          if unset GOOGLE_API_KEY then Inl (Expected ''GOOGLE_API_KEY'')
          else Inr ())"

section \<open>The chat endpoint: what one request does\<close>

text \<open>The four ways through the handler.\<close>

lemma chat_post_no_body: "chat_post agentExecutor None st = (Uncaught, st)"
  by (simp add: chat_post_def)

lemma chat_post_falsy:
  assumes "\<not> truthy (field obj ''message'')"
  shows "chat_post agentExecutor (Some obj) st =
     (Answered \<lparr>status = 400, body = Error ''Message is required''\<rparr>, st)"
  using assms by (simp add: chat_post_def)

lemma chat_post_resolved:
  assumes "truthy (field obj ''message'')"
    and "agentExecutor \<lparr>input = field obj ''message'', chat_history = chatHistory st\<rparr> = Inr out"
  shows "chat_post agentExecutor (Some obj) st =
     (Answered \<lparr>status = 200, body = Response out\<rparr>,
      st\<lparr>invocations := invocations st @
           [\<lparr>input = field obj ''message'', chat_history = chatHistory st\<rparr>],
         chatHistory := chatHistory st @
           [\<lparr>role = ''human'', content = field obj ''message''\<rparr>,
            \<lparr>role = ''ai'', content = JStr out\<rparr>]\<rparr>)"
  using assms by (simp add: chat_post_def Let_def)

lemma chat_post_rejected:
  assumes "truthy (field obj ''message'')"
    and "agentExecutor \<lparr>input = field obj ''message'', chat_history = chatHistory st\<rparr> = Inl err"
  shows "chat_post agentExecutor (Some obj) st =
     (Answered \<lparr>status = 500, body = Error ''Failed to get a response from the agent.''\<rparr>,
      st\<lparr>invocations := invocations st @
           [\<lparr>input = field obj ''message'', chat_history = chatHistory st\<rparr>]\<rparr>)"
  using assms by (simp add: chat_post_def Let_def)

lemma chat_post_cases:
  obtains (no_body) "req_body = None"
  | (falsy) obj where "req_body = Some obj" "\<not> truthy (field obj ''message'')"
  | (resolved) obj out where "req_body = Some obj" "truthy (field obj ''message'')"
      "agentExecutor \<lparr>input = field obj ''message'', chat_history = chatHistory st\<rparr> = Inr out"
  | (rejected) obj err where "req_body = Some obj" "truthy (field obj ''message'')"
      "agentExecutor \<lparr>input = field obj ''message'', chat_history = chatHistory st\<rparr> = Inl err"
proof (cases req_body)
  case None
  then show ?thesis by (rule no_body)
next
  case (Some obj)
  show ?thesis
  proof (cases "truthy (field obj ''message'')")
    case False
    with Some show ?thesis by (rule falsy)
  next
    case True
    show ?thesis
    proof (cases "agentExecutor \<lparr>input = field obj ''message'', chat_history = chatHistory st\<rparr>")
      case (Inl err)
      with Some True show ?thesis by (rule rejected)
    next
      case (Inr out)
      with Some True show ?thesis by (rule resolved)
    qed
  qed
qed

lemma example_requests:
  "field [''message'' \<mapsto> JStr ''hi''] ''message'' = JStr ''hi''"
  "field [''message'' \<mapsto> JStr []] ''message'' = JStr []"
  "field Map.empty ''message'' = JUndefined"
  by (simp_all add: field_def)

text \<open>
  C3, as the code has it, for a request that reaches the handler with a parsed body
  object. The test is \<^verbatim>\<open>!message\<close>: a message that is truthy (a non-empty string
  is) is answered 200 with \<open>Response\<close> when the executor resolves and 500 with
  \<open>Error\<close> when it rejects; a message that is falsy (absent from the object,
  \<^verbatim>\<open>null\<close>, \<^verbatim>\<open>false\<close>, \<^verbatim>\<open>0\<close> or the empty string) is answered 400 with
  \<open>Error\<close>. Whatever the body, an answer of the handler has one of these three
  statuses.
\<close>

theorem chat_status:
  "(truthy (field obj ''message'') \<longrightarrow>
      (\<forall>out. agentExecutor \<lparr>input = field obj ''message'', chat_history = chatHistory st\<rparr> = Inr out \<longrightarrow>
         fst (chat_post agentExecutor (Some obj) st) =
           Answered \<lparr>status = 200, body = Response out\<rparr>) \<and>
      (\<forall>err. agentExecutor \<lparr>input = field obj ''message'', chat_history = chatHistory st\<rparr> = Inl err \<longrightarrow>
         fst (chat_post agentExecutor (Some obj) st) =
           Answered \<lparr>status = 500, body = Error ''Failed to get a response from the agent.''\<rparr>)) \<and>
   (\<not> truthy (field obj ''message'') \<longrightarrow>
      fst (chat_post agentExecutor (Some obj) st) =
        Answered \<lparr>status = 400, body = Error ''Message is required''\<rparr>) \<and>
   (\<forall>res. fst (chat_post agentExecutor req_body st) = Answered res \<longrightarrow>
      status res \<in> {200, 400, 500})"
proof (intro conjI)
  show "truthy (field obj ''message'') \<longrightarrow>
      (\<forall>out. agentExecutor \<lparr>input = field obj ''message'', chat_history = chatHistory st\<rparr> = Inr out \<longrightarrow>
         fst (chat_post agentExecutor (Some obj) st) =
           Answered \<lparr>status = 200, body = Response out\<rparr>) \<and>
      (\<forall>err. agentExecutor \<lparr>input = field obj ''message'', chat_history = chatHistory st\<rparr> = Inl err \<longrightarrow>
         fst (chat_post agentExecutor (Some obj) st) =
           Answered \<lparr>status = 500, body = Error ''Failed to get a response from the agent.''\<rparr>)"
    by (simp add: chat_post_resolved chat_post_rejected)
next
  show "\<not> truthy (field obj ''message'') \<longrightarrow>
      fst (chat_post agentExecutor (Some obj) st) =
        Answered \<lparr>status = 400, body = Error ''Message is required''\<rparr>"
    by (simp add: chat_post_falsy)
next
  show "\<forall>res. fst (chat_post agentExecutor req_body st) = Answered res \<longrightarrow>
      status res \<in> {200, 400, 500}"
  proof (cases rule: chat_post_cases [where req_body = req_body and agentExecutor = agentExecutor and st = st])
    case no_body
    then show ?thesis by (simp add: chat_post_no_body)
  next
    case (falsy obj)
    then show ?thesis by (auto simp add: chat_post_falsy)
  next
    case (resolved obj out)
    then show ?thesis by (auto simp add: chat_post_resolved)
  next
    case (rejected obj err)
    then show ?thesis by (auto simp add: chat_post_rejected)
  qed
qed

theorem chat_status_witness:
  "fst (chat_post (agent_replying ''Hello'') (Some [''message'' \<mapsto> JStr ''hi'']) initial_state) =
     Answered \<lparr>status = 200, body = Response ''Hello''\<rparr> \<and>
   fst (chat_post (agent_failing ''quota'') (Some [''message'' \<mapsto> JStr ''hi'']) initial_state) =
     Answered \<lparr>status = 500, body = Error ''Failed to get a response from the agent.''\<rparr> \<and>
   fst (chat_post (agent_replying ''Hello'') (Some Map.empty) initial_state) =
     Answered \<lparr>status = 400, body = Error ''Message is required''\<rparr>"
  using chat_status [of "[''message'' \<mapsto> JStr ''hi'']" "agent_replying ''Hello''" initial_state]
    chat_status [of "[''message'' \<mapsto> JStr ''hi'']" "agent_failing ''quota''" initial_state]
    chat_status [of Map.empty "agent_replying ''Hello''" initial_state]
  by (simp add: example_requests agent_replying_def agent_failing_def)

text \<open>
  C3 as stated fails twice. The body \<^verbatim>\<open>{"message": ""}\<close> carries a message string
  and the agent would answer it, yet the status is 400, not 200. And a request for
  which no body was parsed has no message, yet the handler does not answer 400: it
  throws before it answers.
\<close>

theorem empty_message_counterexample:
  "field [''message'' \<mapsto> JStr []] ''message'' = JStr [] \<and>
   agent_replying ''Hello'' \<lparr>input = JStr [], chat_history = []\<rparr> = Inr ''Hello'' \<and>
   fst (chat_post (agent_replying ''Hello'') (Some [''message'' \<mapsto> JStr []]) initial_state) =
     Answered \<lparr>status = 400, body = Error ''Message is required''\<rparr> \<and>
   fst (chat_post (agent_replying ''Hello'') None initial_state) = Uncaught"
  by (simp add: example_requests chat_post_def agent_replying_def)




section \<open>The chat endpoint: the history\<close>

lemma alternating_Nil: "alternating []"
  by (simp add: alternating_def)

lemma alternating_push:
  assumes "alternating history"
  shows "alternating (history @ [\<lparr>role = ''human'', content = m\<rparr>, \<lparr>role = ''ai'', content = a\<rparr>])"
proof -
  let ?h = "history @ [\<lparr>role = ''human'', content = m\<rparr>, \<lparr>role = ''ai'', content = a\<rparr>]"
  from assms have ev: "even (length history)"
    and old: "\<And>i. i < length history \<Longrightarrow>
      role (history ! i) = (if even i then ''human'' else ''ai'')"
    by (simp_all add: alternating_def)
  have "role (?h ! i) = (if even i then ''human'' else ''ai'')" if bound: "i < length ?h" for i
  proof -
    consider "i < length history" | "i = length history" | "i = Suc (length history)"
      using bound by (auto simp add: less_Suc_eq)
    then show ?thesis
    proof cases
      case 1
      then show ?thesis by (simp add: nth_append old)
    next
      case 2
      then show ?thesis using ev by (simp add: nth_append)
    next
      case 3
      then show ?thesis using ev by (simp add: nth_append)
    qed
  qed
  moreover have "even (length ?h)" using ev by simp
  ultimately show ?thesis unfolding alternating_def by blast
qed

lemma chat_post_history:
  "chatHistory (snd (chat_post agentExecutor req_body st)) = chatHistory st \<or>
   (\<exists>m out. chatHistory (snd (chat_post agentExecutor req_body st)) =
      chatHistory st @ [\<lparr>role = ''human'', content = m\<rparr>, \<lparr>role = ''ai'', content = JStr out\<rparr>])"
  by (cases rule: chat_post_cases [where req_body = req_body and agentExecutor = agentExecutor and st = st])
    (simp_all add: chat_post_no_body chat_post_falsy chat_post_resolved chat_post_rejected)

lemma reachable_alternating:
  assumes "reachable st"
  shows "alternating (chatHistory st)"
  using assms
proof (induction rule: reachable.induct)
  case reachable_init
  show ?case by (simp add: initial_state_def alternating_Nil)
next
  case (reachable_post st agentExecutor req_body)
  from chat_post_history [of agentExecutor req_body st] reachable_post.IH
  show ?case by (auto intro: alternating_push)
qed

lemma example_runs:
  "chat_post (agent_replying ''Hello'') (Some [''message'' \<mapsto> JStr ''hi'']) initial_state =
     (Answered \<lparr>status = 200, body = Response ''Hello''\<rparr>,
      \<lparr>chatHistory = [\<lparr>role = ''human'', content = JStr ''hi''\<rparr>,
                      \<lparr>role = ''ai'', content = JStr ''Hello''\<rparr>],
       invocations = [\<lparr>input = JStr ''hi'', chat_history = []\<rparr>]\<rparr>)"
  "chat_post (agent_failing ''quota'') (Some [''message'' \<mapsto> JStr ''hi'']) initial_state =
     (Answered \<lparr>status = 500, body = Error ''Failed to get a response from the agent.''\<rparr>,
      \<lparr>chatHistory = [], invocations = [\<lparr>input = JStr ''hi'', chat_history = []\<rparr>]\<rparr>)"
  by (simp_all add: chat_post_def Let_def example_requests agent_replying_def
      agent_failing_def initial_state_def)

text \<open>
  C6, as the code has it. For a truthy message the agent executor is called once, with
  the message as \<open>input\<close> and, as \<open>chat_history\<close>, the history as it stood before the
  request (the message is not in it). Only when the executor resolves are the human turn
  with the message and then one ai turn with the output appended; when it rejects,
  nothing is appended.
\<close>

theorem orchestrator_context:
  assumes "truthy (field obj ''message'')"
    and "chat_post agentExecutor (Some obj) st = (res, st')"
  shows "invocations st' = invocations st @
           [\<lparr>input = field obj ''message'', chat_history = chatHistory st\<rparr>] \<and>
    (\<forall>out. agentExecutor \<lparr>input = field obj ''message'', chat_history = chatHistory st\<rparr> = Inr out \<longrightarrow>
       chatHistory st' = chatHistory st @
         [\<lparr>role = ''human'', content = field obj ''message''\<rparr>,
          \<lparr>role = ''ai'', content = JStr out\<rparr>]) \<and>
    (\<forall>err. agentExecutor \<lparr>input = field obj ''message'', chat_history = chatHistory st\<rparr> = Inl err \<longrightarrow>
       chatHistory st' = chatHistory st)"
proof (cases "agentExecutor \<lparr>input = field obj ''message'', chat_history = chatHistory st\<rparr>")
  case (Inl err)
  with assms(1) have "chat_post agentExecutor (Some obj) st =
     (Answered \<lparr>status = 500, body = Error ''Failed to get a response from the agent.''\<rparr>,
      st\<lparr>invocations := invocations st @
           [\<lparr>input = field obj ''message'', chat_history = chatHistory st\<rparr>]\<rparr>)"
    by (simp add: chat_post_rejected)
  with assms(2) Inl show ?thesis by auto
next
  case (Inr out)
  with assms(1) have "chat_post agentExecutor (Some obj) st =
     (Answered \<lparr>status = 200, body = Response out\<rparr>,
      st\<lparr>invocations := invocations st @
           [\<lparr>input = field obj ''message'', chat_history = chatHistory st\<rparr>],
         chatHistory := chatHistory st @
           [\<lparr>role = ''human'', content = field obj ''message''\<rparr>,
            \<lparr>role = ''ai'', content = JStr out\<rparr>]\<rparr>)"
    by (simp add: chat_post_resolved)
  with assms(2) Inr show ?thesis by auto
qed

theorem orchestrator_context_witness:
  "truthy (field [''message'' \<mapsto> JStr ''hi''] ''message'') \<and>
   chatHistory (snd (chat_post (agent_replying ''Hello'') (Some [''message'' \<mapsto> JStr ''hi'']) initial_state)) =
     [\<lparr>role = ''human'', content = JStr ''hi''\<rparr>, \<lparr>role = ''ai'', content = JStr ''Hello''\<rparr>] \<and>
   invocations (snd (chat_post (agent_replying ''Hello'') (Some [''message'' \<mapsto> JStr ''hi'']) initial_state)) =
     invocations initial_state @ [\<lparr>input = JStr ''hi'', chat_history = chatHistory initial_state\<rparr>]"
proof -
  have t: "truthy (field [''message'' \<mapsto> JStr ''hi''] ''message'')"
    by (simp add: example_requests)
  from orchestrator_context [OF t example_runs(1)] t example_runs(1)
  show ?thesis by (simp add: example_requests initial_state_def)
qed

text \<open>
  C6 as stated fails. When the executor rejects, the message has been given to it but
  is never appended as a user turn: the history stays empty. And in either case the
  history the executor receives is the old one, without the new message.
\<close>

theorem append_first_counterexample:
  "chatHistory (snd (chat_post (agent_failing ''quota'') (Some [''message'' \<mapsto> JStr ''hi'']) initial_state)) = [] \<and>
   invocations (snd (chat_post (agent_failing ''quota'') (Some [''message'' \<mapsto> JStr ''hi'']) initial_state)) =
     [\<lparr>input = JStr ''hi'', chat_history = []\<rparr>] \<and>
   invocations (snd (chat_post (agent_replying ''Hello'') (Some [''message'' \<mapsto> JStr ''hi'']) initial_state)) =
     [\<lparr>input = JStr ''hi'', chat_history = []\<rparr>]"
  by (simp add: example_runs)

text \<open>
  C10. In any state the server can reach, a request changes the history only when it
  is answered 200, and then by appending the human turn and the ai turn together,
  after the executor has resolved; a request answered 400 or 500, and one the handler
  throws on, leaves the history exactly as it was; and after the request the history
  has even length and alternates human, ai from the first turn.
\<close>

theorem history_pairs_only:
  assumes "reachable st" and "chat_post agentExecutor req_body st = (res, st')"
  shows "(\<forall>r. res = Answered r \<and> status r = 200 \<longrightarrow>
            (\<exists>obj out. req_body = Some obj \<and>
               agentExecutor \<lparr>input = field obj ''message'', chat_history = chatHistory st\<rparr> = Inr out \<and>
               chatHistory st' = chatHistory st @
                 [\<lparr>role = ''human'', content = field obj ''message''\<rparr>,
                  \<lparr>role = ''ai'', content = JStr out\<rparr>])) \<and>
         ((\<forall>r. res = Answered r \<longrightarrow> status r \<noteq> 200) \<longrightarrow> chatHistory st' = chatHistory st) \<and>
         (\<forall>r. res = Answered r \<and> (status r = 400 \<or> status r = 500) \<longrightarrow>
            chatHistory st' = chatHistory st) \<and>
         (res = Uncaught \<longrightarrow> chatHistory st' = chatHistory st) \<and>
         reachable st' \<and> alternating (chatHistory st')"
proof -
  have st': "st' = snd (chat_post agentExecutor req_body st)"
    using assms(2) by simp
  with assms(1) have r: "reachable st'"
    by (simp add: reachable_post)
  then have alt: "alternating (chatHistory st')"
    by (rule reachable_alternating)
  show ?thesis
  proof (cases rule: chat_post_cases [where req_body = req_body and agentExecutor = agentExecutor and st = st])
    case no_body
    with assms(2) r alt show ?thesis by (auto simp add: chat_post_no_body)
  next
    case (falsy obj)
    with assms(2) r alt show ?thesis by (auto simp add: chat_post_falsy)
  next
    case (resolved obj out)
    with assms(2) r alt show ?thesis by (auto simp add: chat_post_resolved)
  next
    case (rejected obj err)
    with assms(2) r alt show ?thesis by (auto simp add: chat_post_rejected)
  qed
qed

theorem history_pairs_only_witness:
  "reachable initial_state \<and>
   chat_post (agent_failing ''quota'') (Some [''message'' \<mapsto> JStr ''hi'']) initial_state =
     (Answered \<lparr>status = 500, body = Error ''Failed to get a response from the agent.''\<rparr>,
      \<lparr>chatHistory = [], invocations = [\<lparr>input = JStr ''hi'', chat_history = []\<rparr>]\<rparr>) \<and>
   chatHistory (snd (chat_post (agent_replying ''Hello'') (Some [''message'' \<mapsto> JStr ''hi'']) initial_state)) =
     [\<lparr>role = ''human'', content = JStr ''hi''\<rparr>, \<lparr>role = ''ai'', content = JStr ''Hello''\<rparr>] \<and>
   alternating [\<lparr>role = ''human'', content = JStr ''hi''\<rparr>, \<lparr>role = ''ai'', content = JStr ''Hello''\<rparr>]"
  using history_pairs_only [OF reachable_init example_runs(1)]
    history_pairs_only [OF reachable_init example_runs(2)] reachable_init example_runs
  by simp

section \<open>The submit-claim tool\<close>

text \<open>
  Whatever the client's insert does to the store, the handler calls it once, with the
  row built from its arguments, and answers by its reply alone.
\<close>

lemma expenseClaimTool_func_single_insert:
  assumes "insert_row (claim_row email description amount) db = (reply, db')"
  shows "expenseClaimTool_func insert_row (email, description, amount) db =
    (if reply = Inr None then submit_success email else submit_failure, db')"
  using assms by (simp add: expenseClaimTool_func_def split: sum.splits option.splits)

lemma failure_is_not_success: "submit_failure \<noteq> submit_success email"
  by (simp add: submit_failure_def submit_success_def)

lemma success_names_email: "sublist email (submit_success email)"
  unfolding submit_success_def by (rule sublist_appendI)

lemma claim_row_fields:
  "field (claim_row email description amount) ''email'' = JStr email"
  "field (claim_row email description amount) ''description'' = JStr description"
  "field (claim_row email description amount) ''amount'' = JNum amount"
  "field (claim_row email description amount) ''status'' = JStr ''Submitted''"
  by (simp_all add: claim_row_def field_def)

lemma example_submissions:
  "expenseClaimTool_func (claims_insert (Inr None)) (''bob@co.com'', ''taxi'', 42.5) [] =
     (submit_success ''bob@co.com'', [claim_row ''bob@co.com'' ''taxi'' 42.5])"
  "expenseClaimTool_func (claims_insert (Inr (Some ''timeout''))) (''bob@co.com'', ''taxi'', 42.5) [] =
     (submit_failure, [])"
  "expenseClaimTool_func (claims_insert (Inl ''fetch failed'')) (''bob@co.com'', ''taxi'', 42.5) [] =
     (submit_failure, [])"
  by (simp_all add: expenseClaimTool_func_def claims_insert_def)

text \<open>
  C1. The handler runs on validated arguments against the claims table. When the
  insert succeeds (the reply carries no error), the table has grown by exactly one row,
  the one with these arguments and status "Submitted", and the returned text is the
  success message, which contains the email. When the insert fails (a reply with an
  error, or a rejected promise), the returned text is the failure message, it is not a
  success message for any email, and the table is unchanged.
\<close>

theorem submit_claim_recorded:
  assumes "expenseClaimTool_func (claims_insert outcome) (email, description, amount) table =
    (msg, table')"
  shows "(outcome = Inr None \<longrightarrow>
            table' = table @ [claim_row email description amount] \<and>
            length table' = Suc (length table) \<and>
            field (claim_row email description amount) ''status'' = JStr ''Submitted'' \<and>
            field (claim_row email description amount) ''email'' = JStr email \<and>
            msg = submit_success email \<and> sublist email msg) \<and>
         (outcome \<noteq> Inr None \<longrightarrow>
            msg = submit_failure \<and> (\<forall>e. msg \<noteq> submit_success e) \<and> table' = table)"
proof (cases "outcome = Inr None")
  case True
  then have ins: "claims_insert outcome (claim_row email description amount) table =
      (Inr None, table @ [claim_row email description amount])"
    by (simp add: claims_insert_def)
  from expenseClaimTool_func_single_insert
    [of "claims_insert outcome" email description amount table, OF ins] assms
  have "msg = submit_success email" and "table' = table @ [claim_row email description amount]"
    by simp_all
  with True show ?thesis
    by (simp add: claim_row_fields success_names_email)
next
  case False
  then have ins: "claims_insert outcome (claim_row email description amount) table =
      (outcome, table)"
    by (auto simp add: claims_insert_def split: sum.splits option.splits)
  from expenseClaimTool_func_single_insert
    [of "claims_insert outcome" email description amount table, OF ins] assms False
  have "msg = submit_failure" and "table' = table"
    by simp_all
  with False show ?thesis
    by (simp add: failure_is_not_success)
qed

theorem submit_claim_recorded_witness:
  "expenseClaimTool_func (claims_insert (Inr None)) (''bob@co.com'', ''taxi'', 42.5) [] =
     (submit_success ''bob@co.com'', [claim_row ''bob@co.com'' ''taxi'' 42.5]) \<and>
   sublist ''bob@co.com'' (submit_success ''bob@co.com'') \<and>
   expenseClaimTool_func (claims_insert (Inr (Some ''timeout''))) (''bob@co.com'', ''taxi'', 42.5) [] =
     (submit_failure, []) \<and>
   submit_failure \<noteq> submit_success ''bob@co.com''"
  using submit_claim_recorded [OF example_submissions(1)]
    submit_claim_recorded [OF example_submissions(2)] example_submissions
  by simp

text \<open>The schema, read off: what it accepts and what it hands to the handler.\<close>

lemma schema_accepts:
  "expenseClaimTool_schema is_email raw = Some (email, description, amount) \<longleftrightarrow>
   field raw ''email'' = JStr email \<and> is_email email \<and>
   field raw ''description'' = JStr description \<and> field raw ''amount'' = JNum amount"
  by (auto simp add: expenseClaimTool_schema_def split: jsval.splits if_splits)

lemma schema_rejects:
  assumes "(\<forall>email. field raw ''email'' = JStr email \<longrightarrow> \<not> is_email email) \<or>
    (\<forall>description. field raw ''description'' \<noteq> JStr description) \<or>
    (\<forall>amount. field raw ''amount'' \<noteq> JNum amount)"
  shows "expenseClaimTool_schema is_email raw = None"
proof (cases "expenseClaimTool_schema is_email raw")
  case None
  then show ?thesis .
next
  case (Some args)
  obtain email description amount where "args = (email, description, amount)"
    by (cases args)
  with Some schema_accepts [of is_email raw email description amount] assms
  show ?thesis by blast
qed

lemma email_shape_examples:
  "email_shape ''bob@co.com''" "email_shape ''amy@co.com''" "\<not> email_shape ''not-an-email''"
  by (simp_all add: email_shape_def)

lemma example_arguments:
  "field [''email'' \<mapsto> e, ''description'' \<mapsto> d, ''amount'' \<mapsto> a] ''email'' = e"
  "field [''email'' \<mapsto> e, ''description'' \<mapsto> d, ''amount'' \<mapsto> a] ''description'' = d"
  "field [''email'' \<mapsto> e, ''description'' \<mapsto> d, ''amount'' \<mapsto> a] ''amount'' = a"
  "field [''email'' \<mapsto> e, ''description'' \<mapsto> d] ''amount'' = JUndefined"
  by (simp_all add: field_def)

text \<open>
  C2, as the code has it. The schema checks that the email is a string in email
  format, that the description is a string and that the amount is a number; it puts
  no condition on the sign of the amount. An invocation whose email is not a string in
  email format, or whose description is not a string, or whose amount is not a number,
  returns the validation error, and the store is left as it was whatever the client's
  insert would do: the handler does not run. An invocation that passes these three
  checks runs the handler on exactly these arguments, positive amount or not.
\<close>

theorem invalid_email_never_inserts:
  "((\<forall>email. field raw ''email'' = JStr email \<longrightarrow> \<not> is_email email) \<longrightarrow>
      submit_expense_claim is_email insert_row raw db = (Inl ValidationError, db)) \<and>
   ((\<forall>description. field raw ''description'' \<noteq> JStr description) \<longrightarrow>
      submit_expense_claim is_email insert_row raw db = (Inl ValidationError, db)) \<and>
   ((\<forall>amount. field raw ''amount'' \<noteq> JNum amount) \<longrightarrow>
      submit_expense_claim is_email insert_row raw db = (Inl ValidationError, db)) \<and>
   (field raw ''email'' = JStr e \<and> is_email e \<and> field raw ''description'' = JStr d \<and>
    field raw ''amount'' = JNum a \<longrightarrow>
      submit_expense_claim is_email insert_row raw db =
        (Inr (fst (expenseClaimTool_func insert_row (e, d, a) db)),
         snd (expenseClaimTool_func insert_row (e, d, a) db)))"
proof -
  have refused: "submit_expense_claim is_email insert_row raw db = (Inl ValidationError, db)"
    if "expenseClaimTool_schema is_email raw = None"
    using that by (simp add: submit_expense_claim_def tool_call_def)
  have email: "(\<forall>email. field raw ''email'' = JStr email \<longrightarrow> \<not> is_email email) \<longrightarrow>
      submit_expense_claim is_email insert_row raw db = (Inl ValidationError, db)"
    by (simp add: refused schema_rejects)
  have description: "(\<forall>description. field raw ''description'' \<noteq> JStr description) \<longrightarrow>
      submit_expense_claim is_email insert_row raw db = (Inl ValidationError, db)"
    by (simp add: refused schema_rejects)
  have amount: "(\<forall>amount. field raw ''amount'' \<noteq> JNum amount) \<longrightarrow>
      submit_expense_claim is_email insert_row raw db = (Inl ValidationError, db)"
    by (simp add: refused schema_rejects)
  have accepted: "field raw ''email'' = JStr e \<and> is_email e \<and>
      field raw ''description'' = JStr d \<and> field raw ''amount'' = JNum a \<longrightarrow>
      submit_expense_claim is_email insert_row raw db =
        (Inr (fst (expenseClaimTool_func insert_row (e, d, a) db)),
         snd (expenseClaimTool_func insert_row (e, d, a) db))"
  proof
    assume "field raw ''email'' = JStr e \<and> is_email e \<and>
      field raw ''description'' = JStr d \<and> field raw ''amount'' = JNum a"
    then have "expenseClaimTool_schema is_email raw = Some (e, d, a)"
      by (simp add: schema_accepts)
    then show "submit_expense_claim is_email insert_row raw db =
        (Inr (fst (expenseClaimTool_func insert_row (e, d, a) db)),
         snd (expenseClaimTool_func insert_row (e, d, a) db))"
      by (simp add: submit_expense_claim_def tool_call_def split: prod.splits)
  qed
  from email description amount accepted show ?thesis by blast
qed

theorem invalid_email_never_inserts_witness:
  "submit_expense_claim email_shape (claims_insert (Inr None))
     [''email'' \<mapsto> JStr ''not-an-email'', ''description'' \<mapsto> JStr ''taxi'',
      ''amount'' \<mapsto> JNum 42.5] [] = (Inl ValidationError, []) \<and>
   submit_expense_claim email_shape (claims_insert (Inr None))
     [''email'' \<mapsto> JStr ''bob@co.com'', ''description'' \<mapsto> JNum 7,
      ''amount'' \<mapsto> JNum 42.5] [] = (Inl ValidationError, []) \<and>
   submit_expense_claim email_shape (claims_insert (Inr None))
     [''email'' \<mapsto> JStr ''bob@co.com'', ''description'' \<mapsto> JStr ''taxi''] [] =
     (Inl ValidationError, []) \<and>
   submit_expense_claim email_shape (claims_insert (Inr None))
     [''email'' \<mapsto> JStr ''bob@co.com'', ''description'' \<mapsto> JStr ''taxi'',
      ''amount'' \<mapsto> JNum 42.5] [] =
     (Inr (submit_success ''bob@co.com''), [claim_row ''bob@co.com'' ''taxi'' 42.5])"
proof -
  let ?bad_email = "[''email'' \<mapsto> JStr ''not-an-email'', ''description'' \<mapsto> JStr ''taxi'',
      ''amount'' \<mapsto> JNum 42.5]"
  let ?bad_description = "[''email'' \<mapsto> JStr ''bob@co.com'', ''description'' \<mapsto> JNum 7,
      ''amount'' \<mapsto> JNum 42.5]"
  let ?no_amount = "[''email'' \<mapsto> JStr ''bob@co.com'', ''description'' \<mapsto> JStr ''taxi'']"
  let ?good = "[''email'' \<mapsto> JStr ''bob@co.com'', ''description'' \<mapsto> JStr ''taxi'',
      ''amount'' \<mapsto> JNum 42.5]"
  have bad_email: "\<forall>email. field ?bad_email ''email'' = JStr email \<longrightarrow> \<not> email_shape email"
    by (simp add: example_arguments email_shape_examples)
  have bad_description: "\<forall>description. field ?bad_description ''description'' \<noteq> JStr description"
    by (simp add: example_arguments)
  have no_amount: "\<forall>amount. field ?no_amount ''amount'' \<noteq> JNum amount"
    by (simp add: example_arguments)
  have good: "field ?good ''email'' = JStr ''bob@co.com'' \<and> email_shape ''bob@co.com'' \<and>
      field ?good ''description'' = JStr ''taxi'' \<and> field ?good ''amount'' = JNum 42.5"
    by (simp add: example_arguments email_shape_examples)
  from invalid_email_never_inserts
    [of ?bad_email email_shape "claims_insert (Inr None)" "[]" "''bob@co.com''" "''taxi''" "42.5"]
    bad_email
  have first: "submit_expense_claim email_shape (claims_insert (Inr None)) ?bad_email [] =
      (Inl ValidationError, [])"
    by blast
  from invalid_email_never_inserts
    [of ?bad_description email_shape "claims_insert (Inr None)" "[]" "''bob@co.com''" "''taxi''" "42.5"]
    bad_description
  have second: "submit_expense_claim email_shape (claims_insert (Inr None)) ?bad_description [] =
      (Inl ValidationError, [])"
    by blast
  from invalid_email_never_inserts
    [of ?no_amount email_shape "claims_insert (Inr None)" "[]" "''bob@co.com''" "''taxi''" "42.5"]
    no_amount
  have third: "submit_expense_claim email_shape (claims_insert (Inr None)) ?no_amount [] =
      (Inl ValidationError, [])"
    by blast
  from invalid_email_never_inserts
    [of ?good email_shape "claims_insert (Inr None)" "[]" "''bob@co.com''" "''taxi''" "42.5"] good
  have "submit_expense_claim email_shape (claims_insert (Inr None)) ?good [] =
      (Inr (fst (expenseClaimTool_func (claims_insert (Inr None)) (''bob@co.com'', ''taxi'', 42.5) [])),
       snd (expenseClaimTool_func (claims_insert (Inr None)) (''bob@co.com'', ''taxi'', 42.5) []))"
    by blast
  with example_submissions(1) first second third show ?thesis by simp
qed

text \<open>
  C2 as stated fails for the amount: with a valid email and the amount \<open>-5\<close>, which is
  not positive, the tool returns no validation error; the handler runs, the row is
  inserted and the success message is returned.
\<close>

theorem nonpositive_amount_counterexample:
  "\<not> 0 < (- 5 :: real) \<and> email_shape ''bob@co.com'' \<and>
   submit_expense_claim email_shape (claims_insert (Inr None))
     [''email'' \<mapsto> JStr ''bob@co.com'', ''description'' \<mapsto> JStr ''taxi'',
      ''amount'' \<mapsto> JNum (- 5)] [] =
     (Inr (submit_success ''bob@co.com''), [claim_row ''bob@co.com'' ''taxi'' (- 5)])"
  by (simp add: email_shape_examples example_arguments submit_expense_claim_def tool_call_def
      expenseClaimTool_schema_def expenseClaimTool_func_def claims_insert_def)

section \<open>The get-user-claims tool\<close>

lemma no_claims_names_email: "sublist email (no_claims_found email)"
  unfolding no_claims_found_def by (rule sublist_appendI)

lemma no_claims_is_not_failure: "no_claims_found email \<noteq> retrieve_failure"
  by (simp add: no_claims_found_def retrieve_failure_def)

lemma no_claims_is_not_a_list:
  "no_claims_found email \<noteq> ''Here are the past claims for '' @ rest"
  by (simp add: no_claims_found_def)

lemma getUserClaimsTool_func_empty:
  assumes "select email = Inr reply" and "error reply = None"
    and "data reply = None \<or> data reply = Some []"
  shows "getUserClaimsTool_func str locale_date select email = no_claims_found email"
  using assms by (auto simp add: getUserClaimsTool_func_def)

lemma getUserClaimsTool_func_failed:
  assumes "select email = Inl thrown \<or> (\<exists>reply message. select email = Inr reply \<and> error reply = Some message)"
  shows "getUserClaimsTool_func str locale_date select email = retrieve_failure"
  using assms by (auto simp add: getUserClaimsTool_func_def)

text \<open>
  C5. The tool is called with an email in email format, and the query for it resolves
  without error and with no rows (an empty \<^verbatim>\<open>data\<close>, or \<^verbatim>\<open>null\<close>). Then
  the handler, and so the tool, returns the text "No past claims found for" that email:
  a result, not a validation error; not the failure text of the \<^verbatim>\<open>catch\<close> branch;
  and not the list heading followed by an empty list.
\<close>

theorem no_claims_message:
  assumes "field raw ''email'' = JStr email" and "is_email email"
    and "select db email = Inr reply" and "error reply = None"
    and "data reply = None \<or> data reply = Some []"
  shows "getUserClaimsTool_func str locale_date (select db) email = no_claims_found email \<and>
         get_user_claims is_email str locale_date select raw db =
           (Inr (no_claims_found email), db) \<and>
         sublist email (no_claims_found email) \<and>
         no_claims_found email \<noteq> retrieve_failure \<and>
         no_claims_found email \<noteq>
           ''Here are the past claims for '' @ email @ '':'' @ [CHR 0x0A] @
           join [CHR 0x0A] (map (format_claim str locale_date) [])"
proof -
  have func: "getUserClaimsTool_func str locale_date (select db) email = no_claims_found email"
    using assms(3-5) by (rule getUserClaimsTool_func_empty)
  have "getUserClaimsTool_schema is_email raw = Some email"
    using assms(1,2) by (simp add: getUserClaimsTool_schema_def)
  with func have tool: "get_user_claims is_email str locale_date select raw db =
      (Inr (no_claims_found email), db)"
    by (simp add: get_user_claims_def tool_call_def)
  have distinct: "no_claims_found email \<noteq>
      ''Here are the past claims for '' @ email @ '':'' @ [CHR 0x0A] @
      join [CHR 0x0A] (map (format_claim str locale_date) [])"
    by (rule no_claims_is_not_a_list)
  from func tool no_claims_names_email no_claims_is_not_failure distinct
  show ?thesis by blast
qed

theorem no_claims_message_witness:
  "claims_select [claim_row ''bob@co.com'' ''taxi'' 42.5] ''amy@co.com'' =
     Inr \<lparr>data = Some [], error = None\<rparr> \<and>
   get_user_claims email_shape (\<lambda>v. []) (\<lambda>v. []) claims_select
     [''email'' \<mapsto> JStr ''amy@co.com''] [claim_row ''bob@co.com'' ''taxi'' 42.5] =
     (Inr ''No past claims found for amy@co.com.'', [claim_row ''bob@co.com'' ''taxi'' 42.5])"
proof -
  let ?raw = "[''email'' \<mapsto> JStr ''amy@co.com'']"
  let ?table = "[claim_row ''bob@co.com'' ''taxi'' 42.5]"
  have arg: "field ?raw ''email'' = JStr ''amy@co.com''"
    by (simp add: field_def)
  have sel: "claims_select ?table ''amy@co.com'' = Inr \<lparr>data = Some [], error = None\<rparr>"
    by (simp add: claims_select_def claim_row_fields)
  have err: "error \<lparr>data = Some ([] :: object list), error = None\<rparr> = None"
    by simp
  have rows: "data \<lparr>data = Some ([] :: object list), error = None\<rparr> = None \<or>
      data \<lparr>data = Some ([] :: object list), error = None\<rparr> = Some []"
    by simp
  from no_claims_message [of ?raw "''amy@co.com''" email_shape claims_select ?table,
      OF arg email_shape_examples(2) sel err rows, of "\<lambda>v. []" "\<lambda>v. []"] sel
  show ?thesis by (simp add: no_claims_found_def)
qed

section \<open>Startup and the required secrets\<close>

lemma startup_with_all_secrets:
  assumes "\<not> unset (process_env ''SUPABASE_KEY'')" and "\<not> unset (process_env ''SUPABASE_URL'')"
    and "\<not> unset (process_env ''GOOGLE_API_KEY'')"
  shows "index_startup process_env = Inr 8000" and "ingest_startup process_env = Inr ()"
  using assms by (simp_all add: index_startup_def ingest_startup_def gemini_client_def)

lemma index_startup_own_checks:
  assumes "unset (process_env ''SUPABASE_KEY'') \<or> unset (process_env ''SUPABASE_URL'')"
  shows "index_startup process_env = Inl (Expected ''SUPABASE_KEY'') \<or>
         index_startup process_env = Inl (Expected ''SUPABASE_URL'')"
  using assms by (auto simp add: index_startup_def Let_def)

lemma index_startup_fatal:
  assumes "unset (process_env ''SUPABASE_KEY'') \<or> unset (process_env ''SUPABASE_URL'') \<or>
    unset (process_env ''GOOGLE_API_KEY'')"
  shows "\<exists>e. index_startup process_env = Inl e"
  using assms by (auto simp add: index_startup_def gemini_client_def Let_def)

lemma ingest_startup_fatal:
  assumes "unset (process_env ''SUPABASE_KEY'') \<or> unset (process_env ''SUPABASE_URL'') \<or>
    unset (process_env ''GOOGLE_API_KEY'')"
  shows "\<exists>e. ingest_startup process_env = Inl e"
  using assms by (auto simp add: ingest_startup_def Let_def)

text \<open>
  C9. If one of the three required secrets (\<^verbatim>\<open>SUPABASE_URL\<close>,
  \<^verbatim>\<open>SUPABASE_KEY\<close>, \<^verbatim>\<open>GOOGLE_API_KEY\<close>) is missing from the environment, the
  startup of the server ends in an error and never reaches \<^verbatim>\<open>app.listen\<close>, and
  the startup of the ingestion ends in an error before \<^verbatim>\<open>run()\<close>. For the two
  Supabase variables, and for all three in the ingestion, the error is thrown by the
  program's own checks; for the API key in the server it is the client constructors'.
\<close>

theorem missing_secret_fatal:
  assumes "k = ''SUPABASE_URL'' \<or> k = ''SUPABASE_KEY'' \<or> k = ''GOOGLE_API_KEY''"
    and "process_env k = None"
  shows "(\<exists>e. index_startup process_env = Inl e) \<and>
         (\<forall>port. index_startup process_env \<noteq> Inr port) \<and>
         (\<exists>e. ingest_startup process_env = Inl e)"
proof -
  from assms have missing: "unset (process_env ''SUPABASE_KEY'') \<or>
      unset (process_env ''SUPABASE_URL'') \<or> unset (process_env ''GOOGLE_API_KEY'')"
    by (auto simp add: unset_def)
  from index_startup_fatal [OF missing]
  obtain e where "index_startup process_env = Inl e" ..
  moreover from ingest_startup_fatal [OF missing]
  obtain e' where "ingest_startup process_env = Inl e'" ..
  ultimately show ?thesis by simp
qed

theorem missing_secret_fatal_witness:
  "[''SUPABASE_KEY'' \<mapsto> ''key'', ''SUPABASE_URL'' \<mapsto> ''https://db.example''] ''GOOGLE_API_KEY'' = None \<and>
   index_startup [''SUPABASE_KEY'' \<mapsto> ''key'', ''SUPABASE_URL'' \<mapsto> ''https://db.example''] =
     Inl ApiKeyRequired \<and>
   ingest_startup [''SUPABASE_KEY'' \<mapsto> ''key'', ''SUPABASE_URL'' \<mapsto> ''https://db.example''] =
     Inl (Expected ''GOOGLE_API_KEY'') \<and>
   index_startup [''SUPABASE_KEY'' \<mapsto> ''key'', ''GOOGLE_API_KEY'' \<mapsto> ''g''] =
     Inl (Expected ''SUPABASE_URL'') \<and>
   index_startup [''SUPABASE_KEY'' \<mapsto> ''key'', ''SUPABASE_URL'' \<mapsto> ''https://db.example'',
     ''GOOGLE_API_KEY'' \<mapsto> ''g''] = Inr 8000"
proof -
  let ?env = "[''SUPABASE_KEY'' \<mapsto> ''key'', ''SUPABASE_URL'' \<mapsto> ''https://db.example'']"
  have k: "''GOOGLE_API_KEY'' = ''SUPABASE_URL'' \<or> ''GOOGLE_API_KEY'' = ''SUPABASE_KEY'' \<or>
      ''GOOGLE_API_KEY'' = ''GOOGLE_API_KEY''"
    by simp
  have none: "?env ''GOOGLE_API_KEY'' = None"
    by simp
  from missing_secret_fatal [of "''GOOGLE_API_KEY''" ?env, OF k none] none show ?thesis
    by (simp add: index_startup_def ingest_startup_def gemini_client_def unset_def)
qed

end
